theory Spec2Isabelle
  imports Complex_Main "HOL-Library.Word"
begin

section \<open>JavaScript numbers\<close>

text \<open>
  The values of the type \<open>number\<close> that the market utilities compute with. A finite double
  is idealised as a real: rounding, overflow and the sign of zero are not modelled. The
  two infinities and NaN are values of their own, since the code's comparisons, its
  truthiness tests and its divisions treat them apart.
\<close>

datatype number = Fin real | PInf | NInf | NaN

definition signed_inf :: "bool \<Rightarrow> number" where
  "signed_inf positive = (if positive then PInf else NInf)"

fun num_neg :: "number \<Rightarrow> number" where
  "num_neg (Fin a) = Fin (- a)"
| "num_neg PInf = NInf"
| "num_neg NInf = PInf"
| "num_neg NaN = NaN"

text \<open>\<open>a + b\<close>\<close>

fun num_add :: "number \<Rightarrow> number \<Rightarrow> number" where
  "num_add NaN b = NaN"
| "num_add a NaN = NaN"
| "num_add (Fin a) (Fin b) = Fin (a + b)"
| "num_add PInf NInf = NaN"
| "num_add NInf PInf = NaN"
| "num_add PInf b = PInf"
| "num_add a PInf = PInf"
| "num_add NInf b = NInf"
| "num_add a NInf = NInf"

text \<open>\<open>a - b\<close>\<close>

definition num_sub :: "number \<Rightarrow> number \<Rightarrow> number" where
  "num_sub a b = num_add a (num_neg b)"

text \<open>\<open>a * b\<close>: zero times an infinity is NaN.\<close>

fun num_mul :: "number \<Rightarrow> number \<Rightarrow> number" where
  "num_mul NaN b = NaN"
| "num_mul a NaN = NaN"
| "num_mul (Fin a) (Fin b) = Fin (a * b)"
| "num_mul (Fin a) PInf = (if a = 0 then NaN else signed_inf (0 < a))"
| "num_mul (Fin a) NInf = (if a = 0 then NaN else signed_inf (a < 0))"
| "num_mul PInf (Fin b) = (if b = 0 then NaN else signed_inf (0 < b))"
| "num_mul NInf (Fin b) = (if b = 0 then NaN else signed_inf (b < 0))"
| "num_mul PInf PInf = PInf"
| "num_mul PInf NInf = NInf"
| "num_mul NInf PInf = NInf"
| "num_mul NInf NInf = PInf"

text \<open>\<open>a / b\<close>: a division by zero gives an infinity, or NaN for \<open>0 / 0\<close>.\<close>

fun num_div :: "number \<Rightarrow> number \<Rightarrow> number" where
  "num_div NaN b = NaN"
| "num_div a NaN = NaN"
| "num_div (Fin a) (Fin b) =
     (if b = 0 then (if a = 0 then NaN else signed_inf (0 < a)) else Fin (a / b))"
| "num_div (Fin a) PInf = Fin 0"
| "num_div (Fin a) NInf = Fin 0"
| "num_div PInf (Fin b) = signed_inf (0 \<le> b)"
| "num_div NInf (Fin b) = signed_inf (b < 0)"
| "num_div a b = NaN"

text \<open>\<open>a < b\<close> and \<open>a > b\<close>: every comparison with NaN is false.\<close>

fun num_less :: "number \<Rightarrow> number \<Rightarrow> bool" where
  "num_less NaN b = False"
| "num_less a NaN = False"
| "num_less (Fin a) (Fin b) = (a < b)"
| "num_less a NInf = False"
| "num_less NInf b = True"
| "num_less PInf b = False"
| "num_less a PInf = True"

definition num_gt :: "number \<Rightarrow> number \<Rightarrow> bool" where
  "num_gt a b = num_less b a"

text \<open>\<open>Math.min(a, b)\<close>: NaN as soon as one argument is NaN.\<close>

fun Math_min :: "number \<Rightarrow> number \<Rightarrow> number" where
  "Math_min NaN b = NaN"
| "Math_min a NaN = NaN"
| "Math_min a b = (if num_less b a then b else a)"

text \<open>\<open>Math.floor(a)\<close>\<close>

fun Math_floor :: "number \<Rightarrow> number" where
  "Math_floor (Fin a) = Fin (of_int \<lfloor>a\<rfloor>)"
| "Math_floor a = a"

text \<open>Truthiness of a number: \<open>0\<close> and NaN are falsy, every other number is truthy.\<close>

fun truthy_number :: "number \<Rightarrow> bool" where
  "truthy_number (Fin a) = (a \<noteq> 0)"
| "truthy_number NaN = False"
| "truthy_number a = True"


section \<open>Order book levels\<close>

text \<open>
  An aggregated level as \<open>Orderbook.getL2\<close> hands it out: \<open>useOrderbook\<close> reads the fields
  \<open>price\<close> and \<open>quantity\<close> of each element.
\<close>

record level =
  price :: number
  quantity :: number

text \<open>
  The \<open>Orderbook\<close> object of the exchange library, reduced to its aggregated levels, each
  side best price first.
\<close>

record Orderbook =
  bid_levels :: "level list"
  ask_levels :: "level list"

text \<open>
  Modelled from the spec: \<open>Orderbook.getL2(depth, asks)\<close> belongs to the exchange library
  and is not part of the sources; following the description of \<open>aggregateLevels\<close> it is the
  requested side, sorted by matching priority and truncated to \<open>depth\<close> levels.
\<close>

definition getL2 :: "Orderbook \<Rightarrow> nat \<Rightarrow> bool \<Rightarrow> level list" where
  "getL2 orderbook depth asks =
     take depth (if asks then ask_levels orderbook else bid_levels orderbook)"


section \<open>Expected fill price\<close>

text \<open>
  The values that the loop variables \<open>price\<close>, \<open>sizeAtLevel\<close> and \<open>costAtLevel\<close> of
  \<open>getExpectedFillPrice\<close> can hold: \<open>undefined\<close> (a \<open>let\<close> without initialiser), a number, or
  an element of the level list.
\<close>

datatype loop_value = Undefined | Number number | Level level

text \<open>
  The conversion the operator \<open>*\<close> applies to its operands: \<open>undefined\<close> converts to NaN,
  and so does an object without a numeric primitive value, such as a level with its two
  fields. The products of the loop do not depend on the second case: one operand of each
  is \<open>sizeAtLevel\<close> or \<open>costAtLevel\<close>, which are NaN.
\<close>

fun ToNumber :: "loop_value \<Rightarrow> number" where
  "ToNumber Undefined = NaN"
| "ToNumber (Number n) = n"
| "ToNumber (Level l) = NaN"

text \<open>
  The loop of \<open>getExpectedFillPrice\<close> over the pair \<open>(spentCost, avgPrice)\<close>. The loop header
  is \<open>for (price of orderbook.getL2(1000, asks))\<close>: each element is bound to \<open>price\<close> as a
  whole and \<open>sizeAtLevel\<close> is never assigned.
\<close>

fun fill_loop :: "bool \<Rightarrow> number \<Rightarrow> level list \<Rightarrow> number \<times> number \<Rightarrow> number \<times> number" where
  "fill_loop asks cost [] (spentCost, avgPrice) = (spentCost, avgPrice)"
| "fill_loop asks cost (element # rest) (spentCost, avgPrice) =
     (let price = Level element;
          sizeAtLevel = Undefined;
          costAtLevel = num_mul (if \<not> asks then Fin 1 else ToNumber price) (ToNumber sizeAtLevel)
      in if num_gt (num_add spentCost costAtLevel) cost
         then (cost, num_add avgPrice (num_mul (num_sub cost spentCost) (ToNumber price)))
         else fill_loop asks cost rest
                (num_add spentCost costAtLevel,
                 num_add avgPrice (num_mul costAtLevel (ToNumber price))))"

text \<open>
  Modelled from the spec: \<open>floorToDecimal\<close> is imported from \<open>./utils\<close>, which is not part of
  the sources; the result is rounded down (floored) to the given number of decimals.
\<close>

definition floorToDecimal :: "number \<Rightarrow> nat \<Rightarrow> number" where
  "floorToDecimal v decimals =
     num_div (Math_floor (num_mul v (Fin (10 ^ decimals)))) (Fin (10 ^ decimals))"

text \<open>
  \<open>tickSizeDecimals\<close> is an optional count of decimals; \<open>if (tickSizeDecimals)\<close> is taken
  when it is given and not zero.
\<close>

definition getExpectedFillPrice :: "Orderbook \<Rightarrow> number \<Rightarrow> bool \<Rightarrow> nat option \<Rightarrow> number" where
  "getExpectedFillPrice orderbook cost asks tickSizeDecimals =
     (let (spentCost, avgPrice) = fill_loop asks cost (getL2 orderbook 1000 asks) (Fin 0, Fin 0);
          totalAvgPrice = num_div avgPrice (Math_min cost spentCost)
      in case tickSizeDecimals of
           None \<Rightarrow> totalAvgPrice
         | Some decimals \<Rightarrow>
             if decimals \<noteq> 0 then floorToDecimal totalAvgPrice decimals else totalAvgPrice)"

text \<open>
  The computation as the specification words it, for comparison: each level is taken apart
  into its price and its size, \<open>costAtLevel\<close> is \<open>price * sizeAtLevel\<close> when buying from asks
  and \<open>sizeAtLevel\<close> when selling into bids, and the crossing level contributes
  \<open>(targetNotional - spentCost) * price\<close>.
\<close>

fun spec_fill_loop :: "bool \<Rightarrow> number \<Rightarrow> level list \<Rightarrow> number \<times> number \<Rightarrow> number \<times> number" where
  "spec_fill_loop asks targetNotional [] (spentCost, weightedPriceSum) =
     (spentCost, weightedPriceSum)"
| "spec_fill_loop asks targetNotional (l # rest) (spentCost, weightedPriceSum) =
     (let costAtLevel = (if asks then num_mul (price l) (quantity l) else quantity l)
      in if num_gt (num_add spentCost costAtLevel) targetNotional
         then (targetNotional,
               num_add weightedPriceSum (num_mul (num_sub targetNotional spentCost) (price l)))
         else spec_fill_loop asks targetNotional rest
                (num_add spentCost costAtLevel,
                 num_add weightedPriceSum (num_mul costAtLevel (price l))))"

definition spec_expectedFillPrice :: "level list \<Rightarrow> bool \<Rightarrow> number \<Rightarrow> number" where
  "spec_expectedFillPrice levels asks targetNotional =
     (let (spentCost, weightedPriceSum) =
            spec_fill_loop asks targetNotional levels (Fin 0, Fin 0)
      in num_div weightedPriceSum (Math_min targetNotional spentCost))"

definition asks_10_11 :: Orderbook where
  "asks_10_11 =
     \<lparr>bid_levels = [],
      ask_levels = [\<lparr>price = Fin 10, quantity = Fin 1\<rparr>, \<lparr>price = Fin 11, quantity = Fin 1\<rparr>]\<rparr>"

definition asks_10 :: Orderbook where
  "asks_10 = \<lparr>bid_levels = [], ask_levels = [\<lparr>price = Fin 10, quantity = Fin 1\<rparr>]\<rparr>"



section \<open>Trades and the mark price\<close>

text \<open>A fill event as \<open>market.loadFills\<close> returns it, with the fields the hooks read.\<close>

record fill =
  maker :: bool
  side :: string
  trade_price :: number

text \<open>
  \<open>useTrades\<close>: \<open>null\<close> when the fills are not loaded; otherwise the maker fills, each with
  its side swapped.
\<close>

definition useTrades :: "fill list option \<Rightarrow> fill list option" where
  "useTrades trades =
     (case trades of
        None \<Rightarrow> None
      | Some fills \<Rightarrow>
          Some (map (\<lambda>trade. trade\<lparr>side := (if side trade = ''buy'' then ''sell'' else ''buy'')\<rparr>)
                  (filter maker fills)))"

text \<open>
  The first component of \<open>useOrderbook\<close>: two arrays of levels, each level an array
  \<open>[price, quantity]\<close>.
\<close>

record l2 =
  bids :: "number list list"
  asks :: "number list list"

text \<open>\<open>Number(level[0])\<close>: an index out of range reads \<open>undefined\<close>, which converts to NaN.\<close>

fun Number_at0 :: "number list \<Rightarrow> number" where
  "Number_at0 [] = NaN"
| "Number_at0 (x # xs) = x"

text \<open>
  \<open>levels.length > 0 && Number(levels[0][0])\<close>: \<open>None\<close> stands for the value \<open>false\<close> of
  an empty side.
\<close>

definition bestPrice :: "number list list \<Rightarrow> number option" where
  "bestPrice levels = (case levels of [] \<Rightarrow> None | l # _ \<Rightarrow> Some (Number_at0 l))"

text \<open>
  \<open>trades && trades.length > 0 && trades[0].price\<close>: \<open>None\<close> stands for the falsy values
  \<open>null\<close> and \<open>false\<close> of a missing or empty trade list.
\<close>

definition lastPrice :: "fill list option \<Rightarrow> number option" where
  "lastPrice trades =
     (case trades of None \<Rightarrow> None | Some [] \<Rightarrow> None | Some (t # _) \<Rightarrow> Some (trade_price t))"

text \<open>
  \<open>Array.prototype.sort\<close> with a comparison function, as a stable insertion sort: an element
  moves in front of another only when the comparison function returns a number above zero
  for the pair (a NaN result counts as zero). Every conforming sort returns this order when
  the comparison function is consistent.
\<close>

fun insert_sorted :: "('a \<Rightarrow> 'a \<Rightarrow> number) \<Rightarrow> 'a \<Rightarrow> 'a list \<Rightarrow> 'a list" where
  "insert_sorted compareFn x [] = [x]"
| "insert_sorted compareFn x (y # ys) =
     (if num_gt (compareFn y x) (Fin 0) then x # y # ys
      else y # insert_sorted compareFn x ys)"

definition Array_sort :: "('a \<Rightarrow> 'a \<Rightarrow> number) \<Rightarrow> 'a list \<Rightarrow> 'a list" where
  "Array_sort compareFn xs = foldl (\<lambda>sorted x. insert_sorted compareFn x sorted) [] xs"

text \<open>
  The value that the effect of \<open>useMarkPrice\<close> stores with \<open>setMarkPrice\<close> and that the hook
  returns from then on; \<open>None\<close> is \<open>null\<close>. The tests \<open>bb && ba\<close> and \<open>last ? ... : ...\<close> are
  truthiness tests.
\<close>

definition useMarkPrice :: "l2 \<Rightarrow> fill list option \<Rightarrow> number option" where
  "useMarkPrice orderbook trades =
     (let bb = bestPrice (bids orderbook);
          ba = bestPrice (asks orderbook);
          last = lastPrice trades
      in case (bb, ba) of
           (Some b, Some a) \<Rightarrow>
             if truthy_number b \<and> truthy_number a
             then (case last of
                     Some l \<Rightarrow>
                       if truthy_number l
                       then Some (Array_sort (\<lambda>x y. num_sub x y) [b, a, l] ! 1)
                       else Some (num_div (num_add b a) (Fin 2))
                   | None \<Rightarrow> Some (num_div (num_add b a) (Fin 2)))
             else None
         | _ \<Rightarrow> None)"

text \<open>
  The median of three numbers as the specification words it: the middle value after
  sorting.
\<close>

definition num_le :: "number \<Rightarrow> number \<Rightarrow> bool" where
  "num_le a b = (a = b \<or> num_less a b)"

definition median3 :: "number \<Rightarrow> number \<Rightarrow> number \<Rightarrow> number" where
  "median3 a b c =
     (if num_le a b then (if num_le b c then b else if num_le a c then c else a)
      else (if num_le a c then a else if num_le b c then c else b))"

definition book_10_11 :: l2 where
  "book_10_11 =
     \<lparr>bids = [[Fin 10, Fin 1], [Fin 9, Fin 2]], asks = [[Fin 11, Fin 1], [Fin 12, Fin 3]]\<rparr>"

definition fill_10_8 :: fill where
  "fill_10_8 = \<lparr>maker = True, side = ''sell'', trade_price = Fin (54 / 5)\<rparr>"

definition book_zero_bid :: l2 where
  "book_zero_bid = \<lparr>bids = [[Fin 0, Fin 1]], asks = [[Fin 11, Fin 1]]\<rparr>"


section \<open>Markets\<close>

text \<open>
  A \<open>PublicKey\<close> is identified with its base-58 text: \<open>equals\<close> is equality and \<open>toBase58\<close>
  and \<open>new PublicKey\<close> are the identity (the validation of the text is not modelled).
\<close>

type_synonym pubkey = string

definition WRAPPED_SOL_MINT :: pubkey where
  "WRAPPED_SOL_MINT = ''So11111111111111111111111111111111111111112''"

definition mint1 :: pubkey where
  "mint1 = ''CZen4jVxdisrutQo2FeNY916uoeuEtLwfqSqJk9HHdEF''"

definition mint2 :: pubkey where
  "mint2 = ''Cq47UeAkQcZmnaLPFpbHF8ZLjrPu4PhjshtsoKifMmMU''"

definition marketAddress :: pubkey where
  "marketAddress = ''BT7i1viSJSQBHQ1jWVs7VWPBrY3gT5PLbYm9f62F7ZhR''"

text \<open>
  \<open>MarketInfo\<close>, without the field \<open>programId\<close>, which no function modelled here reads.
\<close>

record MarketInfo =
  name :: string
  address :: pubkey
  deprecated :: bool
  baseLabel :: "string option"
  quoteLabel :: "string option"

definition USE_MARKETS :: "MarketInfo list" where
  "USE_MARKETS =
     [\<lparr>name = ''Test'', address = marketAddress, deprecated = False,
       baseLabel = None, quoteLabel = None\<rparr>]"

record token_mint =
  token_name :: string
  token_address :: pubkey

definition TOKEN_MINTS :: "token_mint list" where
  "TOKEN_MINTS =
     [\<lparr>token_name = ''Mint 1'', token_address = mint1\<rparr>,
      \<lparr>token_name = ''Mint 2'', token_address = mint2\<rparr>]"

definition DEFAULT_MARKET :: "MarketInfo option" where
  "DEFAULT_MARKET = find (\<lambda>m. name m = ''SRM/USDT'' \<and> \<not> deprecated m) USE_MARKETS"

text \<open>
  The \<open>Market\<close> object of the exchange library, with the fields the hooks read and the
  decimals behind its two size conversions.
\<close>

record Market =
  market_address :: pubkey
  baseMintAddress :: pubkey
  quoteMintAddress :: pubkey
  baseDecimals :: nat
  quoteDecimals :: nat

text \<open>
  Modelled from the spec: \<open>Market.baseSplSizeToNumber\<close> and \<open>Market.quoteSplSizeToNumber\<close>
  belong to the exchange library and are not part of the sources; a fixed-point integer
  amount \<open>a\<close> with \<open>d\<close> decimals maps to the value \<open>a / 10^d\<close>.
\<close>

definition splSizeToNumber :: "nat \<Rightarrow> int \<Rightarrow> number" where
  "splSizeToNumber decimals amount = Fin (of_int amount / 10 ^ decimals)"

definition baseSplSizeToNumber :: "Market \<Rightarrow> int \<Rightarrow> number" where
  "baseSplSizeToNumber market amount = splSizeToNumber (baseDecimals market) amount"

definition quoteSplSizeToNumber :: "Market \<Rightarrow> int \<Rightarrow> number" where
  "quoteSplSizeToNumber market amount = splSizeToNumber (quoteDecimals market) amount"

text \<open>\<open>getMarketInfos\<close>: the custom markets, never deprecated, in front of \<open>USE_MARKETS\<close>.\<close>

definition getMarketInfos :: "MarketInfo list \<Rightarrow> MarketInfo list" where
  "getMarketInfos customMarkets = map (\<lambda>m. m\<lparr>deprecated := False\<rparr>) customMarkets @ USE_MARKETS"

text \<open>Truthiness of a string, and \<open>a || b\<close> on optional strings.\<close>

definition truthy_string :: "string option \<Rightarrow> bool" where
  "truthy_string v = (case v of None \<Rightarrow> False | Some s \<Rightarrow> s \<noteq> [])"

definition or_else :: "string option \<Rightarrow> string option \<Rightarrow> string option" where
  "or_else a b = (if truthy_string a then a else b)"

text \<open>
  The currency name of a mint in \<open>getMarketDetails\<close>: the name in \<open>TOKEN_MINTS\<close>, or the
  label of the market's entry followed by a star, or \<open>UNKNOWN\<close>.
\<close>

definition currencyName :: "pubkey \<Rightarrow> string option \<Rightarrow> string option" where
  "currencyName mint label =
     or_else
       (or_else (map_option token_name (find (\<lambda>token. token_address token = mint) TOKEN_MINTS))
                (if truthy_string label then map_option (\<lambda>l. l @ ''*'') label else label))
       (Some ''UNKNOWN'')"

text \<open>
  The context value of \<open>MarketProvider\<close>, read by \<open>useMarket\<close>: the market and the fields of
  \<open>getMarketDetails(market, customMarkets)\<close> that the hooks read. Without a market
  \<open>getMarketDetails\<close> returns the empty object and both currencies are \<open>undefined\<close>.
\<close>

record MarketContextValues =
  ctx_market :: "Market option"
  marketName :: "string option"
  baseCurrency :: "string option"
  quoteCurrency :: "string option"

definition getMarketDetails :: "Market option \<Rightarrow> MarketInfo list \<Rightarrow> MarketContextValues" where
  "getMarketDetails market customMarkets =
     (case market of
        None \<Rightarrow>
          \<lparr>ctx_market = None, marketName = None, baseCurrency = None, quoteCurrency = None\<rparr>
      | Some m \<Rightarrow>
          (let marketInfo =
                 find (\<lambda>otherMarket. address otherMarket = market_address m)
                   (getMarketInfos customMarkets)
           in \<lparr>ctx_market = market,
               marketName = map_option name marketInfo,
               baseCurrency =
                 currencyName (baseMintAddress m) (Option.bind marketInfo baseLabel),
               quoteCurrency =
                 currencyName (quoteMintAddress m) (Option.bind marketInfo quoteLabel)\<rparr>))"


section \<open>The trade page address\<close>

datatype error = SyntaxError

text \<open>
  The result of \<open>JSON.parse\<close> as \<open>getTradePageUrl\<close> observes it: a falsy value, or a truthy
  value with the text it has in a template literal.
\<close>

datatype parsed = Falsy | Truthy string

text \<open>The text of an optional string in a template literal.\<close>

definition template_text :: "string option \<Rightarrow> string" where
  "template_text v = (case v of None \<Rightarrow> ''undefined'' | Some s \<Rightarrow> s)"

text \<open>
  \<open>getTradePageUrl(marketAddress?)\<close>. The preference store \<open>localStorage\<close> is a map from
  keys to texts, and \<open>JSON.parse\<close> is a parameter that throws (\<open>Inl\<close>) or returns a value.
  The parameter \<open>marketAddress\<close> is named \<open>marketAddressArg\<close> here; in the source it shadows
  the constant \<open>marketAddress\<close> of the module. Without a truthy argument and without a
  truthy parsed preference, the address is
  \<open>marketAddress || DEFAULT_MARKET?.address.toBase58() || ''\<close> with a falsy \<open>marketAddress\<close>.
\<close>

definition getTradePageUrl ::
  "(string \<Rightarrow> error + parsed) \<Rightarrow> (string \<rightharpoonup> string) \<Rightarrow> string option \<Rightarrow> error + string"
where
  "getTradePageUrl JSON_parse localStorage marketAddressArg =
     (if truthy_string marketAddressArg
      then Inr (''/market/'' @ template_text marketAddressArg)
      else (case (case localStorage ''marketAddress'' of
                    None \<Rightarrow> Inr Falsy
                  | Some saved \<Rightarrow> if saved \<noteq> [] then JSON_parse saved else Inr Falsy) of
              Inl e \<Rightarrow> Inl e
            | Inr (Truthy savedAddress) \<Rightarrow> Inr (''/market/'' @ savedAddress)
            | Inr Falsy \<Rightarrow>
                Inr (''/market/'' @
                     template_text (or_else (map_option address DEFAULT_MARKET) (Some [])))))"

text \<open>
  The first route of \<open>Routes\<close>: the exact path \<open>/\<close> renders a redirect to
  \<open>getTradePageUrl()\<close>, called without an argument.
\<close>

definition root_redirect ::
  "(string \<Rightarrow> error + parsed) \<Rightarrow> (string \<rightharpoonup> string) \<Rightarrow> error + string"
where
  "root_redirect JSON_parse localStorage = getTradePageUrl JSON_parse localStorage None"



section \<open>The order book hook\<close>

text \<open>Truthiness of an array: an array is an object, and every object is truthy.\<close>

definition truthy_array :: "'a list \<Rightarrow> bool" where
  "truthy_array xs = True"

text \<open>
  \<open>useOrderbook(depth = 20)\<close>, from the order book that \<open>useOrderbookAccounts\<close> holds and
  the market of the context. The second component is \<open>!!bids || !!asks\<close>.
\<close>

definition useOrderbook :: "Orderbook option \<Rightarrow> Market option \<Rightarrow> nat option \<Rightarrow> l2 \<times> bool" where
  "useOrderbook orderbook market depthArg =
     (let depth = (case depthArg of None \<Rightarrow> 20 | Some d \<Rightarrow> d);
          bidArray =
            (case (orderbook, market) of
               (Some book, Some m) \<Rightarrow> map (\<lambda>p. [price p, quantity p]) (getL2 book depth False)
             | _ \<Rightarrow> []);
          askArray =
            (case (orderbook, market) of
               (Some book, Some m) \<Rightarrow> map (\<lambda>p. [price p, quantity p]) (getL2 book depth True)
             | _ \<Rightarrow> [])
      in (\<lparr>bids = bidArray, asks = askArray\<rparr>, truthy_array bidArray \<or> truthy_array askArray))"


section \<open>Fetchers gated on the wallet\<close>

text \<open>
  An open-orders account, with the fixed-point fields the balance hooks read. The fields
  are \<open>BN\<close> integers; \<open>useBalances\<close> tests each for presence, so each is optional here.
\<close>

record OpenOrders =
  openOrders_address :: pubkey
  baseTokenFree :: "int option"
  baseTokenTotal :: "int option"
  quoteTokenFree :: "int option"
  quoteTokenTotal :: "int option"

record AccountInfo =
  lamports :: nat
  data :: "8 word list"

record TokenAccount =
  pubkey :: pubkey
  account :: "AccountInfo option"
  effectiveMint :: pubkey

record Wallet =
  publicKey :: pubkey

text \<open>
  The network data source, with the two calls the fetchers make, and the requests sent
  to it. A call is settled with a value or rejected with a message.
\<close>

datatype request = OpenOrdersRequest pubkey pubkey | TokenAccountsRequest pubkey

datatype 'a promise = Resolved 'a | Rejected string

record data_source =
  findOpenOrdersAccountForOwner :: "pubkey \<Rightarrow> pubkey \<Rightarrow> OpenOrders list promise"
  getTokenAccountInfo :: "pubkey \<Rightarrow> TokenAccount list promise"

text \<open>\<open>return await call\<close>: the value of the call, or its rejection.\<close>

fun awaited :: "'a promise \<Rightarrow> 'a option promise" where
  "awaited (Resolved v) = Resolved (Some v)"
| "awaited (Rejected e) = Rejected e"

text \<open>
  The fetcher \<open>getOpenOrdersAccounts\<close> inside \<open>useOpenOrdersAccounts\<close>: its outcome (\<open>None\<close>
  is \<open>null\<close>) and the requests it sent to the data source. The flag \<open>connected\<close> of
  \<open>useWallet\<close> is named \<open>isConnected\<close> here.
\<close>

definition getOpenOrdersAccounts ::
  "data_source \<Rightarrow> bool \<Rightarrow> Wallet option \<Rightarrow> Market option \<Rightarrow> OpenOrders list option promise \<times> request list"
where
  "getOpenOrdersAccounts source isConnected wallet market =
     (case wallet of
        None \<Rightarrow> (Resolved None, [])
      | Some w \<Rightarrow>
          if \<not> isConnected then (Resolved None, [])
          else (case market of
                  None \<Rightarrow> (Resolved None, [])
                | Some m \<Rightarrow>
                    (awaited (findOpenOrdersAccountForOwner source (market_address m) (publicKey w)),
                     [OpenOrdersRequest (market_address m) (publicKey w)])))"

text \<open>The fetcher \<open>getTokenAccounts\<close> inside \<open>useTokenAccounts\<close>.\<close>

definition getTokenAccounts ::
  "data_source \<Rightarrow> bool \<Rightarrow> Wallet option \<Rightarrow> TokenAccount list option promise \<times> request list"
where
  "getTokenAccounts source isConnected wallet =
     (case wallet of
        None \<Rightarrow> (Resolved None, [])
      | Some w \<Rightarrow>
          if \<not> isConnected then (Resolved None, [])
          else (awaited (getTokenAccountInfo source (publicKey w)),
                [TokenAccountsRequest (publicKey w)]))"

text \<open>
  \<open>useSelectedOpenOrdersAccount\<close>: \<open>null\<close> without accounts, else \<open>accounts[0]\<close>, which is
  \<open>undefined\<close> for an empty array; \<open>None\<close> stands for both.
\<close>

definition useSelectedOpenOrdersAccount :: "OpenOrders list option \<Rightarrow> OpenOrders option" where
  "useSelectedOpenOrdersAccount accounts =
     (case accounts of None \<Rightarrow> None | Some [] \<Rightarrow> None | Some (first # _) \<Rightarrow> Some first)"


section \<open>Balances\<close>

text \<open>
  What the hooks under \<open>useBalances\<close> read: the market context, the token accounts of the
  wallet (first component of \<open>useTokenAccounts\<close>), the selected token account per mint,
  the result \<open>[accountInfo, loaded]\<close> of \<open>useAccountInfo\<close> for an account address, and the
  open-orders accounts (first component of \<open>useOpenOrdersAccounts\<close>).
\<close>

record app_state =
  marketContext :: MarketContextValues
  tokenAccounts :: "TokenAccount list option"
  selectedTokenAccounts :: "string \<rightharpoonup> string"
  useAccountInfo :: "pubkey option \<Rightarrow> AccountInfo option \<times> bool"
  openOrdersAccounts :: "OpenOrders list option"

text \<open>
  \<open>getSelectedTokenAccountForMint\<close>: the first account of the mint, or of the mint and the
  selected address when one is selected.
\<close>

definition getSelectedTokenAccountForMint ::
  "TokenAccount list option \<Rightarrow> pubkey option \<Rightarrow> string option \<Rightarrow> TokenAccount option"
where
  "getSelectedTokenAccountForMint accounts mint selectedPubKey =
     (case (accounts, mint) of
        (Some accs, Some mintKey) \<Rightarrow>
          (case filter (\<lambda>acc. mintKey = effectiveMint acc \<and>
                           (if truthy_string selectedPubKey
                            then selectedPubKey = Some (pubkey acc) else True)) accs
           of [] \<Rightarrow> None | first # _ \<Rightarrow> Some first)
      | _ \<Rightarrow> None)"

definition useSelectedBaseCurrencyAccount :: "app_state \<Rightarrow> TokenAccount option" where
  "useSelectedBaseCurrencyAccount state =
     (let mintAddress = map_option baseMintAddress (ctx_market (marketContext state))
      in getSelectedTokenAccountForMint (tokenAccounts state) mintAddress
           (Option.bind mintAddress (selectedTokenAccounts state)))"

definition useSelectedQuoteCurrencyAccount :: "app_state \<Rightarrow> TokenAccount option" where
  "useSelectedQuoteCurrencyAccount state =
     (let mintAddress = map_option quoteMintAddress (ctx_market (marketContext state))
      in getSelectedTokenAccountForMint (tokenAccounts state) mintAddress
           (Option.bind mintAddress (selectedTokenAccounts state)))"

text \<open>
  \<open>new BN(accountInfo.data.slice(64, 72), 10, 'le')\<close>: the bytes 64 to 71 of the account
  data, read as a little-endian integer.
\<close>

definition slice :: "nat \<Rightarrow> nat \<Rightarrow> 'a list \<Rightarrow> 'a list" where
  "slice start stop xs = take (stop - start) (drop start xs)"

definition BN_le :: "8 word list \<Rightarrow> int" where
  "BN_le bytes = foldr (\<lambda>byte acc. uint byte + 256 * acc) bytes 0"

definition tokenAmount :: "AccountInfo \<Rightarrow> int" where
  "tokenAmount accountInfo = BN_le (slice 64 72 (data accountInfo))"

text \<open>
  \<open>useSelectedBaseCurrencyBalances\<close> and \<open>useSelectedQuoteCurrencyBalances\<close>: \<open>null\<close> until
  the market, the token account and its loaded account data are there; for the wrapped
  native mint the lamports over \<open>1e9\<close>; else the token amount, scaled by the market.
\<close>

definition useSelectedBaseCurrencyBalances :: "app_state \<Rightarrow> number option" where
  "useSelectedBaseCurrencyBalances state =
     (let baseCurrencyAccount = useSelectedBaseCurrencyAccount state;
          (accountInfo, loaded) = useAccountInfo state (map_option pubkey baseCurrencyAccount)
      in case (ctx_market (marketContext state), baseCurrencyAccount, accountInfo) of
           (Some m, Some acc, Some info) \<Rightarrow>
             if \<not> loaded then None
             else if baseMintAddress m = WRAPPED_SOL_MINT
             then Some (num_div (Fin (of_nat (lamports info))) (Fin (10 ^ 9)))
             else Some (baseSplSizeToNumber m (tokenAmount info))
         | _ \<Rightarrow> None)"

definition useSelectedQuoteCurrencyBalances :: "app_state \<Rightarrow> number option" where
  "useSelectedQuoteCurrencyBalances state =
     (let quoteCurrencyAccount = useSelectedQuoteCurrencyAccount state;
          (accountInfo, loaded) = useAccountInfo state (map_option pubkey quoteCurrencyAccount)
      in case (ctx_market (marketContext state), quoteCurrencyAccount, accountInfo) of
           (Some m, Some acc, Some info) \<Rightarrow>
             if \<not> loaded then None
             else if quoteMintAddress m = WRAPPED_SOL_MINT
             then Some (num_div (Fin (of_nat (lamports info))) (Fin (10 ^ 9)))
             else Some (quoteSplSizeToNumber m (tokenAmount info))
         | _ \<Rightarrow> None)"

text \<open>
  The amounts \<open>orders\<close> and \<open>unsettled\<close> of one currency: numbers when the market, the
  open-orders account and its two fields are there, else \<open>null\<close>.
\<close>

definition inOrders ::
  "Market option \<Rightarrow> (Market \<Rightarrow> int \<Rightarrow> number) \<Rightarrow> int option \<Rightarrow> int option \<Rightarrow> number option"
where
  "inOrders market toNumber tokenTotal tokenFree =
     (case (market, tokenTotal, tokenFree) of
        (Some m, Some tokTotal, Some tokFree) \<Rightarrow> Some (toNumber m (tokTotal - tokFree))
      | _ \<Rightarrow> None)"

definition unsettledAmount ::
  "Market option \<Rightarrow> (Market \<Rightarrow> int \<Rightarrow> number) \<Rightarrow> int option \<Rightarrow> int option \<Rightarrow> number option"
where
  "unsettledAmount market toNumber tokenTotal tokenFree =
     (case (market, tokenTotal, tokenFree) of
        (Some m, Some tokTotal, Some tokFree) \<Rightarrow> Some (toNumber m tokFree)
      | _ \<Rightarrow> None)"

text \<open>A row of \<open>useBalances\<close>; \<open>None\<close> is \<open>null\<close>.\<close>

record Balances =
  bal_market :: "Market option"
  key :: string
  coin :: string
  wallet :: "number option"
  orders :: "number option"
  bal_openOrders :: "OpenOrders option"
  unsettled :: "number option"

definition useBalances :: "app_state \<Rightarrow> Balances list" where
  "useBalances state =
     (let baseCurrencyBalances = useSelectedBaseCurrencyBalances state;
          quoteCurrencyBalances = useSelectedQuoteCurrencyBalances state;
          selected = useSelectedOpenOrdersAccount (openOrdersAccounts state);
          market = ctx_market (marketContext state);
          base = baseCurrency (marketContext state);
          quote = quoteCurrency (marketContext state)
      in if base = Some ''UNKNOWN'' \<or> quote = Some ''UNKNOWN'' \<or>
            \<not> truthy_string base \<or> \<not> truthy_string quote
         then []
         else
           [\<lparr>bal_market = market,
             key = template_text base @ template_text quote @ template_text base,
             coin = template_text base,
             wallet = baseCurrencyBalances,
             orders = inOrders market baseSplSizeToNumber
                        (Option.bind selected baseTokenTotal) (Option.bind selected baseTokenFree),
             bal_openOrders = selected,
             unsettled = unsettledAmount market baseSplSizeToNumber
                        (Option.bind selected baseTokenTotal) (Option.bind selected baseTokenFree)\<rparr>,
            \<lparr>bal_market = market,
             key = template_text quote @ template_text base @ template_text quote,
             coin = template_text quote,
             wallet = quoteCurrencyBalances,
             orders = inOrders market quoteSplSizeToNumber
                        (Option.bind selected quoteTokenTotal) (Option.bind selected quoteTokenFree),
             bal_openOrders = selected,
             unsettled = unsettledAmount market quoteSplSizeToNumber
                        (Option.bind selected quoteTokenTotal) (Option.bind selected quoteTokenFree)\<rparr>])"


section \<open>Cache keys\<close>

text \<open>
  The values handed to \<open>tuple\<close> as cache-key arguments. An object carries the reference it
  was allocated at and its fields.
\<close>

datatype jsval =
  JUndefined | JNull | JBool bool | JNum number | JStr string | JObj nat "(string \<times> jsval) list"

text \<open>What identity sees of a value: a primitive by its value, an object by its reference.\<close>

fun by_identity :: "jsval \<Rightarrow> jsval" where
  "by_identity (JObj reference members) = JObj reference []"
| "by_identity v = v"

definition identical :: "jsval \<Rightarrow> jsval \<Rightarrow> bool" where
  "identical a b = (by_identity a = by_identity b)"

text \<open>What deep equality sees of a value: the fields, recursively, and no reference.\<close>

primrec by_structure :: "jsval \<Rightarrow> jsval" where
  "by_structure JUndefined = JUndefined"
| "by_structure JNull = JNull"
| "by_structure (JBool b) = JBool b"
| "by_structure (JNum n) = JNum n"
| "by_structure (JStr s) = JStr s"
| "by_structure (JObj reference members) = JObj 0 (map (map_prod id by_structure) members)"

definition deepEqual :: "jsval \<Rightarrow> jsval \<Rightarrow> bool" where
  "deepEqual a b = (by_structure a = by_structure b)"

text \<open>
  Modelled from the spec: \<open>tuple\<close> is the default export of the package \<open>immutable-tuple\<close>
  and the cache that looks keys up is in \<open>./fetch-loop\<close>; neither is part of the sources.
  The design notes describe the source's keys as tuple-identity-based, relying on object
  interning: the call returns the same tuple object exactly for pairwise identical
  elements, and the cache finds an entry by the identity of that object. A key is
  therefore represented by what identity sees of its elements, and two keys meet in the
  cache when these representations are equal.
\<close>

definition tuple :: "jsval list \<Rightarrow> jsval list" where
  "tuple items = map by_identity items"

text \<open>The cache key of \<open>useOpenOrdersAccounts\<close>.\<close>

definition openOrdersAccountsKey :: "jsval \<Rightarrow> jsval \<Rightarrow> bool \<Rightarrow> jsval list" where
  "openOrdersAccountsKey walletObject marketObject isConnected =
     tuple [JStr ''getOpenOrdersAccounts'', walletObject, marketObject, JBool isConnected]"

definition market_loaded_once :: jsval where
  "market_loaded_once = JObj 1 [(''address'', JStr ''BT7i1viSJSQBHQ1jWVs7VWPBrY3gT5PLbYm9f62F7ZhR'')]"

definition market_loaded_again :: jsval where
  "market_loaded_again = JObj 2 [(''address'', JStr ''BT7i1viSJSQBHQ1jWVs7VWPBrY3gT5PLbYm9f62F7ZhR'')]"


section \<open>Test data\<close>

text \<open>
  The shipped market with the two listed mints, and a market whose base mint is not in
  \<open>TOKEN_MINTS\<close>.
\<close>

definition test_market :: Market where
  "test_market =
     \<lparr>market_address = marketAddress, baseMintAddress = mint1, quoteMintAddress = mint2,
      baseDecimals = 6, quoteDecimals = 6\<rparr>"

definition unlisted_market :: Market where
  "unlisted_market =
     \<lparr>market_address = marketAddress, baseMintAddress = ''unlistedBaseMint'',
      quoteMintAddress = mint2, baseDecimals = 6, quoteDecimals = 6\<rparr>"

definition test_open_orders :: OpenOrders where
  "test_open_orders =
     \<lparr>openOrders_address = ''openOrdersAccount'',
      baseTokenFree = Some 2000000, baseTokenTotal = Some 5000000,
      quoteTokenFree = Some 0, quoteTokenTotal = Some 1500000\<rparr>"

text \<open>
  Token account data with the amounts 123456789 and 1000000 in the bytes 64 to 71,
  little-endian.
\<close>

definition base_account_info :: AccountInfo where
  "base_account_info =
     \<lparr>lamports = 2039280, data = replicate 64 0 @ [0x15, 0xCD, 0x5B, 0x07, 0, 0, 0, 0]\<rparr>"

definition quote_account_info :: AccountInfo where
  "quote_account_info =
     \<lparr>lamports = 2039280, data = replicate 64 0 @ [0x40, 0x42, 0x0F, 0, 0, 0, 0, 0, 1]\<rparr>"

definition test_state :: "Market \<Rightarrow> OpenOrders list option \<Rightarrow> app_state" where
  "test_state m accounts =
     \<lparr>marketContext = getMarketDetails (Some m) [],
      tokenAccounts =
        Some [\<lparr>pubkey = ''baseAccount'', account = Some base_account_info, effectiveMint = mint1\<rparr>,
              \<lparr>pubkey = ''quoteAccount'', account = Some quote_account_info, effectiveMint = mint2\<rparr>],
      selectedTokenAccounts = Map.empty,
      useAccountInfo =
        (\<lambda>address. if address = Some ''baseAccount'' then (Some base_account_info, True)
                    else if address = Some ''quoteAccount'' then (Some quote_account_info, True)
                    else (None, False)),
      openOrdersAccounts = accounts\<rparr>"

text \<open>A data source whose every call is rejected.\<close>

definition failing_source :: data_source where
  "failing_source =
     \<lparr>findOpenOrdersAccountForOwner = (\<lambda>m owner. Rejected ''network''),
      getTokenAccountInfo = (\<lambda>owner. Rejected ''network'')\<rparr>"



section \<open>Properties of the expected fill price\<close>

lemma num_add_NaN_right: "num_add a NaN = NaN"
  by (cases a) simp_all

lemma num_mul_NaN_right: "num_mul a NaN = NaN"
  by (cases a) simp_all

lemma Math_min_NaN_right: "Math_min a NaN = NaN"
  by (cases a) simp_all

lemma num_less_NaN_right: "num_less a NaN = False"
  by (cases a) simp_all

lemma fill_loop_NaN: "fill_loop isAsks cost levels (NaN, NaN) = (NaN, NaN)"
  by (induction levels) (simp_all add: num_gt_def num_less_NaN_right)

lemma fill_loop_nonempty:
  "levels \<noteq> [] \<Longrightarrow> fill_loop isAsks cost levels (spentCost, avgPrice) = (NaN, NaN)"
  by (cases levels)
     (simp_all add: num_gt_def num_less_NaN_right num_mul_NaN_right num_add_NaN_right
        fill_loop_NaN)

lemma getExpectedFillPrice_nonempty:
  "getL2 orderbook 1000 isAsks \<noteq> [] \<Longrightarrow> getExpectedFillPrice orderbook cost isAsks None = NaN"
  by (simp add: getExpectedFillPrice_def fill_loop_nonempty)

lemma floorToDecimal_NaN: "floorToDecimal NaN decimals = NaN"
  by (simp add: floorToDecimal_def)

lemma floorToDecimal_zero: "floorToDecimal (Fin 0) decimals = Fin 0"
  by (simp add: floorToDecimal_def)

lemma empty_book_average:
  "num_div (Fin 0) (Math_min cost (Fin 0)) = NaN \<or> num_div (Fin 0) (Math_min cost (Fin 0)) = Fin 0"
  by (cases cost) auto

text \<open>
  Whatever the book, the cost and the tick decimals, the result is NaN or zero: NaN for
  every non-empty book, and \<open>0 / min(cost, 0)\<close> for the empty one.
\<close>

lemma getExpectedFillPrice_NaN_or_zero:
  "getExpectedFillPrice orderbook cost isAsks tickSizeDecimals = NaN
   \<or> getExpectedFillPrice orderbook cost isAsks tickSizeDecimals = Fin 0"
proof (cases "getL2 orderbook 1000 isAsks")
  case Nil
  with empty_book_average [of cost] show ?thesis
    by (auto simp: getExpectedFillPrice_def Let_def floorToDecimal_NaN floorToDecimal_zero
        split: option.splits)
next
  case (Cons l ls)
  then have "getL2 orderbook 1000 isAsks \<noteq> []"
    by simp
  then have "fill_loop isAsks cost (getL2 orderbook 1000 isAsks) (Fin 0, Fin 0) = (NaN, NaN)"
    by (rule fill_loop_nonempty)
  then show ?thesis
    by (simp add: getExpectedFillPrice_def Let_def floorToDecimal_NaN split: option.splits)
qed

text \<open>
  C1 (the code evaluated at the claim's fixture). For asks \<open>[(10,1),(11,1)]\<close> and a target
  quote notional of 15 the computation the claim describes gives \<open>(10*10 + 5*11) / 15 = 31/3\<close>;
  \<open>getExpectedFillPrice\<close> returns NaN there, because no size is ever read from a level.
\<close>

theorem getExpectedFillPrice_fixture_NaN:
  "getExpectedFillPrice asks_10_11 (Fin 15) True None = NaN
   \<and> spec_expectedFillPrice (getL2 asks_10_11 1000 True) True (Fin 15) = Fin (31 / 3)"
  by (simp add: getExpectedFillPrice_def spec_expectedFillPrice_def asks_10_11_def getL2_def
      num_gt_def num_sub_def)

text \<open>
  C7 (the code evaluated at a book with too little depth). For asks \<open>[(10,1)]\<close> and a target
  of 15 the liquidity that exists is spent at \<open>10*10 / min(15, 10) = 10\<close>;
  \<open>getExpectedFillPrice\<close> returns NaN there.
\<close>

theorem getExpectedFillPrice_shallow_book_NaN:
  "getExpectedFillPrice asks_10 (Fin 15) True None = NaN
   \<and> spec_expectedFillPrice (getL2 asks_10 1000 True) True (Fin 15) = Fin 10"
  by (simp add: getExpectedFillPrice_def spec_expectedFillPrice_def asks_10_def getL2_def
      num_gt_def num_sub_def)


section \<open>Properties of the mark price\<close>

lemma sort_three_median:
  "a \<noteq> NaN \<Longrightarrow> b \<noteq> NaN \<Longrightarrow> c \<noteq> NaN \<Longrightarrow>
   Array_sort (\<lambda>x y. num_sub x y) [a, b, c] ! 1 = median3 a b c"
  by (cases a; cases b; cases c)
     (auto simp: Array_sort_def num_gt_def num_sub_def median3_def num_le_def)

lemma truthy_not_NaN: "truthy_number a \<Longrightarrow> a \<noteq> NaN"
  by (cases a) simp_all

text \<open>
  C2 (as amended). With an empty side the mark price is \<open>null\<close>. With a first bid level
  and a first ask level whose prices are both truthy (neither zero nor NaN), it is the
  median of best bid, best ask and last trade price when there is a last trade with a
  truthy price, and the midpoint \<open>(bestBid + bestAsk) / 2\<close> otherwise. When one of the two
  best prices is zero or NaN it is \<open>null\<close>, although both sides are non-empty.
\<close>

theorem useMarkPrice_truthy_prices:
  "(bids orderbook = [] \<or> asks orderbook = [] \<longrightarrow> useMarkPrice orderbook trades = None)
   \<and> (bids orderbook = (b # bidSize) # bidRest \<and> asks orderbook = (a # askSize) # askRest
        \<and> truthy_number b \<and> truthy_number a \<longrightarrow>
        useMarkPrice orderbook trades =
          Some (case lastPrice trades of
                  None \<Rightarrow> num_div (num_add b a) (Fin 2)
                | Some l \<Rightarrow>
                    if truthy_number l then median3 b a l else num_div (num_add b a) (Fin 2)))
   \<and> (bids orderbook = (b # bidSize) # bidRest \<and> asks orderbook = (a # askSize) # askRest
        \<and> (b = Fin 0 \<or> b = NaN \<or> a = Fin 0 \<or> a = NaN) \<longrightarrow>
        useMarkPrice orderbook trades = None)"
proof (intro conjI impI)
  assume "bids orderbook = [] \<or> asks orderbook = []"
  then show "useMarkPrice orderbook trades = None"
    by (auto simp: useMarkPrice_def bestPrice_def split: list.splits)
next
  assume h: "bids orderbook = (b # bidSize) # bidRest \<and> asks orderbook = (a # askSize) # askRest
        \<and> truthy_number b \<and> truthy_number a"
  then have nn: "b \<noteq> NaN" "a \<noteq> NaN" by (auto dest: truthy_not_NaN)
  show "useMarkPrice orderbook trades =
          Some (case lastPrice trades of
                  None \<Rightarrow> num_div (num_add b a) (Fin 2)
                | Some l \<Rightarrow>
                    if truthy_number l then median3 b a l else num_div (num_add b a) (Fin 2))"
  proof (cases "lastPrice trades")
    case None
    with h show ?thesis by (simp add: useMarkPrice_def bestPrice_def)
  next
    case (Some l)
    show ?thesis
    proof (cases "truthy_number l")
      case True
      then have "l \<noteq> NaN" by (rule truthy_not_NaN)
      with nn have "Array_sort (\<lambda>x y. num_sub x y) [b, a, l] ! 1 = median3 b a l"
        by (intro sort_three_median)
      with h Some True show ?thesis by (simp add: useMarkPrice_def bestPrice_def)
    next
      case False
      with h Some show ?thesis by (simp add: useMarkPrice_def bestPrice_def)
    qed
  qed
next
  assume "bids orderbook = (b # bidSize) # bidRest \<and> asks orderbook = (a # askSize) # askRest
        \<and> (b = Fin 0 \<or> b = NaN \<or> a = Fin 0 \<or> a = NaN)"
  then show "useMarkPrice orderbook trades = None"
    by (auto simp: useMarkPrice_def bestPrice_def)
qed

text \<open>
  The fixture of C2: bids \<open>[(10,1),(9,2)]\<close> and asks \<open>[(11,1),(12,3)]\<close> give 10.5 without
  trades and 10.8 with a last trade at 10.8; without bids the result is \<open>null\<close>.
\<close>

theorem useMarkPrice_fixture_witness:
  "useMarkPrice book_10_11 (useTrades None) = Some (Fin (21 / 2))
   \<and> useMarkPrice book_10_11 (useTrades (Some [fill_10_8])) = Some (Fin (54 / 5))
   \<and> useMarkPrice \<lparr>bids = [], asks = asks book_10_11\<rparr> (useTrades None) = None"
proof -
  have shape:
    "bids book_10_11 = (Fin 10 # [Fin 1]) # [[Fin 9, Fin 2]]
     \<and> asks book_10_11 = (Fin 11 # [Fin 1]) # [[Fin 12, Fin 3]]
     \<and> truthy_number (Fin 10) \<and> truthy_number (Fin 11)"
    by (simp add: book_10_11_def)
  have none: "lastPrice (useTrades None) = None"
    by (simp add: useTrades_def lastPrice_def)
  have last: "lastPrice (useTrades (Some [fill_10_8])) = Some (Fin (54 / 5))"
    by (simp add: useTrades_def lastPrice_def fill_10_8_def)
  have med: "median3 (Fin 10) (Fin 11) (Fin (54 / 5)) = Fin (54 / 5)"
    by (simp add: median3_def num_le_def)
  have mid: "num_div (num_add (Fin 10) (Fin 11)) (Fin 2) = Fin (21 / 2)"
    by simp
  from useMarkPrice_truthy_prices [of book_10_11 "useTrades None" "Fin 10" "[Fin 1]"
      "[[Fin 9, Fin 2]]" "Fin 11" "[Fin 1]" "[[Fin 12, Fin 3]]"] shape none mid
  have one: "useMarkPrice book_10_11 (useTrades None) = Some (Fin (21 / 2))"
    by simp
  from useMarkPrice_truthy_prices [of book_10_11 "useTrades (Some [fill_10_8])" "Fin 10" "[Fin 1]"
      "[[Fin 9, Fin 2]]" "Fin 11" "[Fin 1]" "[[Fin 12, Fin 3]]"] shape last med
  have two: "useMarkPrice book_10_11 (useTrades (Some [fill_10_8])) = Some (Fin (54 / 5))"
    by simp
  from useMarkPrice_truthy_prices [of "\<lparr>bids = [], asks = asks book_10_11\<rparr>" "useTrades None"]
  have three: "useMarkPrice \<lparr>bids = [], asks = asks book_10_11\<rparr> (useTrades None) = None"
    by simp
  from one two three show ?thesis by simp
qed

text \<open>
  C2 as stated fails at a best bid of price zero: both sides are non-empty and there is no
  trade, yet the result is \<open>null\<close> and not the midpoint 5.5.
\<close>

theorem useMarkPrice_zero_bid_counterexample:
  "bids book_zero_bid \<noteq> [] \<and> asks book_zero_bid \<noteq> [] \<and> lastPrice (useTrades None) = None
   \<and> useMarkPrice book_zero_bid (useTrades None) = None
   \<and> useMarkPrice book_zero_bid (useTrades None) \<noteq> Some (Fin (11 / 2))"
  by (simp add: book_zero_bid_def useMarkPrice_def bestPrice_def useTrades_def lastPrice_def)

section \<open>Properties of the cache keys\<close>

lemma map_by_identity_eq:
  "map by_identity xs = map by_identity ys \<longleftrightarrow> list_all2 identical xs ys"
proof (induction xs arbitrary: ys)
  case Nil
  then show ?case by auto
next
  case (Cons x xs)
  then show ?case by (cases ys) (auto simp: identical_def)
qed

text \<open>
  C3 (as amended). Two keys built independently for the same operation name compare equal
  exactly when their arguments are pairwise identical: the same primitive value, or the
  same object reference.
\<close>

theorem tuple_equal_iff_identical:
  "tuple (JStr opName # xs) = tuple (JStr opName # ys) \<longleftrightarrow> list_all2 identical xs ys"
  by (simp add: tuple_def map_by_identity_eq)

text \<open>
  C3 as stated fails for a market object decoded twice: the two objects are deep-equal,
  and the keys built from them differ, also the key of \<open>useOpenOrdersAccounts\<close>.
\<close>

theorem tuple_fresh_object_counterexample:
  "deepEqual market_loaded_once market_loaded_again \<and> deepEqual (JBool True) (JBool True)
   \<and> tuple [JStr ''a'', market_loaded_once, JBool True]
       \<noteq> tuple [JStr ''a'', market_loaded_again, JBool True]
   \<and> openOrdersAccountsKey JNull market_loaded_once True
       \<noteq> openOrdersAccountsKey JNull market_loaded_again True"
  by (simp add: deepEqual_def tuple_def openOrdersAccountsKey_def market_loaded_once_def
      market_loaded_again_def)


section \<open>Properties of the fetchers\<close>

text \<open>
  C6. While the wallet is not connected, or there is no wallet, the fetchers of
  \<open>useOpenOrdersAccounts\<close> and \<open>useTokenAccounts\<close> are settled with \<open>null\<close>, are not
  rejected, and send no request to the data source.
\<close>

theorem fetchers_when_not_connected:
  "\<not> isConnected \<or> walletObject = None \<Longrightarrow>
   getOpenOrdersAccounts source isConnected walletObject market = (Resolved None, [])
   \<and> getTokenAccounts source isConnected walletObject = (Resolved None, [])"
  by (auto simp: getOpenOrdersAccounts_def getTokenAccounts_def split: option.splits)

text \<open>
  C6 at a wallet that is present and not connected, and at a missing wallet, over a data
  source that would reject every call.
\<close>

theorem fetchers_when_not_connected_witness:
  "getOpenOrdersAccounts failing_source False (Some \<lparr>publicKey = ''owner''\<rparr>) (Some test_market)
     = (Resolved None, [])
   \<and> getTokenAccounts failing_source False (Some \<lparr>publicKey = ''owner''\<rparr>) = (Resolved None, [])
   \<and> getOpenOrdersAccounts failing_source True None (Some test_market) = (Resolved None, [])
   \<and> getTokenAccounts failing_source True None = (Resolved None, [])"
  using fetchers_when_not_connected [of False "Some \<lparr>publicKey = ''owner''\<rparr>" failing_source
      "Some test_market"]
    fetchers_when_not_connected [of True None failing_source "Some test_market"]
  by simp


section \<open>Properties of the order book hook\<close>

text \<open>
  C9. The second component of \<open>useOrderbook\<close> is \<open>true\<close> for every order book, market and
  depth; it is the same without an order book and a market as with both.
\<close>

theorem useOrderbook_flag_always_true:
  "snd (useOrderbook orderbook market depth) = True
   \<and> snd (useOrderbook None None depth) = snd (useOrderbook (Some book) (Some m) depth)"
  by (simp add: useOrderbook_def truthy_array_def Let_def)


section \<open>Properties of the trade page address\<close>

text \<open>
  C10. \<open>DEFAULT_MARKET\<close> is \<open>undefined\<close> for the shipped \<open>USE_MARKETS\<close>; without a saved
  \<open>marketAddress\<close> preference \<open>getTradePageUrl()\<close> is \<open>/market/\<close>, and so is the target of
  the redirect of the root route.
\<close>

theorem default_market_undefined:
  "DEFAULT_MARKET = None
   \<and> (localStorage ''marketAddress'' = None \<longrightarrow>
        getTradePageUrl JSON_parse localStorage None = Inr ''/market/''
        \<and> root_redirect JSON_parse localStorage = Inr ''/market/'')"
  by (simp add: DEFAULT_MARKET_def USE_MARKETS_def getTradePageUrl_def root_redirect_def
      truthy_string_def or_else_def template_text_def)

text \<open>C10 at the empty preference store.\<close>

theorem default_market_undefined_witness:
  "Map.empty ''marketAddress'' = (None :: string option)
   \<and> getTradePageUrl (\<lambda>s. Inl SyntaxError) Map.empty None = Inr ''/market/''
   \<and> root_redirect (\<lambda>s. Inl SyntaxError) Map.empty = Inr ''/market/''"
  using default_market_undefined [of Map.empty "\<lambda>s. Inl SyntaxError"]
  by simp


section \<open>Properties of the balances\<close>

text \<open>The guard of \<open>useBalances\<close>: no row without two known currency names.\<close>

lemma useBalances_unknown_currency:
  "baseCurrency (marketContext state) = Some ''UNKNOWN''
   \<or> quoteCurrency (marketContext state) = Some ''UNKNOWN''
   \<or> baseCurrency (marketContext state) = None \<or> quoteCurrency (marketContext state) = None
   \<or> baseCurrency (marketContext state) = Some [] \<or> quoteCurrency (marketContext state) = Some []
   \<Longrightarrow> useBalances state = []"
  by (auto simp: useBalances_def Let_def truthy_string_def)

text \<open>
  C4 (as amended). For a market in the context whose base and quote currency names are
  known (not empty and not \<open>UNKNOWN\<close>) and a selected open-orders account with its four
  fields, \<open>useBalances\<close> reports a base row and a quote row with
  \<open>orders = (total - free) / 10^d\<close> and \<open>unsettled = free / 10^d\<close>, \<open>d\<close> the decimals of the
  currency. The \<open>wallet\<close> of a row is the balance of the selected token account: once its
  account data is loaded, the token amount over \<open>10^d\<close>, or the lamports over \<open>10^9\<close>
  when the mint is the wrapped native mint.
\<close>

theorem useBalances_with_open_orders:
  assumes ctx: "ctx_market (marketContext state) = Some m"
              "baseCurrency (marketContext state) = Some base"
              "quoteCurrency (marketContext state) = Some quote"
    and known: "base \<noteq> [] \<and> base \<noteq> ''UNKNOWN'' \<and> quote \<noteq> [] \<and> quote \<noteq> ''UNKNOWN''"
    and oo: "useSelectedOpenOrdersAccount (openOrdersAccounts state) = Some oo"
    and fields: "baseTokenTotal oo = Some baseTotal" "baseTokenFree oo = Some baseFree"
                "quoteTokenTotal oo = Some quoteTotal" "quoteTokenFree oo = Some quoteFree"
  shows "map (\<lambda>row. (coin row, orders row, unsettled row, wallet row)) (useBalances state) =
           [(base,
             Some (Fin (of_int (baseTotal - baseFree) / 10 ^ baseDecimals m)),
             Some (Fin (of_int baseFree / 10 ^ baseDecimals m)),
             useSelectedBaseCurrencyBalances state),
            (quote,
             Some (Fin (of_int (quoteTotal - quoteFree) / 10 ^ quoteDecimals m)),
             Some (Fin (of_int quoteFree / 10 ^ quoteDecimals m)),
             useSelectedQuoteCurrencyBalances state)]
         \<and> (\<forall>acc info.
               useSelectedBaseCurrencyAccount state = Some acc
               \<and> useAccountInfo state (Some (pubkey acc)) = (Some info, True) \<longrightarrow>
               useSelectedBaseCurrencyBalances state =
                 Some (if baseMintAddress m = WRAPPED_SOL_MINT
                       then Fin (of_nat (lamports info) / 10 ^ 9)
                       else Fin (of_int (tokenAmount info) / 10 ^ baseDecimals m)))
         \<and> (\<forall>acc info.
               useSelectedQuoteCurrencyAccount state = Some acc
               \<and> useAccountInfo state (Some (pubkey acc)) = (Some info, True) \<longrightarrow>
               useSelectedQuoteCurrencyBalances state =
                 Some (if quoteMintAddress m = WRAPPED_SOL_MINT
                       then Fin (of_nat (lamports info) / 10 ^ 9)
                       else Fin (of_int (tokenAmount info) / 10 ^ quoteDecimals m)))"
proof (intro conjI allI impI)
  show "map (\<lambda>row. (coin row, orders row, unsettled row, wallet row)) (useBalances state) =
           [(base,
             Some (Fin (of_int (baseTotal - baseFree) / 10 ^ baseDecimals m)),
             Some (Fin (of_int baseFree / 10 ^ baseDecimals m)),
             useSelectedBaseCurrencyBalances state),
            (quote,
             Some (Fin (of_int (quoteTotal - quoteFree) / 10 ^ quoteDecimals m)),
             Some (Fin (of_int quoteFree / 10 ^ quoteDecimals m)),
             useSelectedQuoteCurrencyBalances state)]"
    using ctx known oo fields
    by (simp add: useBalances_def Let_def truthy_string_def template_text_def inOrders_def
        unsettledAmount_def baseSplSizeToNumber_def quoteSplSizeToNumber_def splSizeToNumber_def)
next
  fix acc info
  assume "useSelectedBaseCurrencyAccount state = Some acc
               \<and> useAccountInfo state (Some (pubkey acc)) = (Some info, True)"
  with ctx show "useSelectedBaseCurrencyBalances state =
                 Some (if baseMintAddress m = WRAPPED_SOL_MINT
                       then Fin (of_nat (lamports info) / 10 ^ 9)
                       else Fin (of_int (tokenAmount info) / 10 ^ baseDecimals m))"
    by (simp add: useSelectedBaseCurrencyBalances_def baseSplSizeToNumber_def splSizeToNumber_def)
next
  fix acc info
  assume "useSelectedQuoteCurrencyAccount state = Some acc
               \<and> useAccountInfo state (Some (pubkey acc)) = (Some info, True)"
  with ctx show "useSelectedQuoteCurrencyBalances state =
                 Some (if quoteMintAddress m = WRAPPED_SOL_MINT
                       then Fin (of_nat (lamports info) / 10 ^ 9)
                       else Fin (of_int (tokenAmount info) / 10 ^ quoteDecimals m))"
    by (simp add: useSelectedQuoteCurrencyBalances_def quoteSplSizeToNumber_def splSizeToNumber_def)
qed


text \<open>The test state evaluated.\<close>

lemma test_context:
  "marketContext (test_state test_market accounts) =
     \<lparr>ctx_market = Some test_market, marketName = Some ''Test'',
      baseCurrency = Some ''Mint 1'', quoteCurrency = Some ''Mint 2''\<rparr>"
  by (simp add: test_state_def test_market_def getMarketDetails_def getMarketInfos_def
      USE_MARKETS_def TOKEN_MINTS_def currencyName_def or_else_def truthy_string_def
      mint1_def mint2_def marketAddress_def)

lemma test_token_amounts:
  "tokenAmount base_account_info = 123456789" "tokenAmount quote_account_info = 1000000"
  by (simp_all add: tokenAmount_def base_account_info_def quote_account_info_def slice_def
      BN_le_def)

lemma test_wallets:
  "useSelectedBaseCurrencyBalances (test_state test_market accounts)
     = Some (Fin (123456789 / 1000000))"
  "useSelectedQuoteCurrencyBalances (test_state test_market accounts) = Some (Fin 1)"
  by (simp_all add: useSelectedBaseCurrencyBalances_def useSelectedQuoteCurrencyBalances_def
      useSelectedBaseCurrencyAccount_def useSelectedQuoteCurrencyAccount_def test_context
      getSelectedTokenAccountForMint_def,
      simp_all add: test_state_def test_market_def mint1_def mint2_def test_token_amounts
      WRAPPED_SOL_MINT_def truthy_string_def baseSplSizeToNumber_def quoteSplSizeToNumber_def
      splSizeToNumber_def)

text \<open>
  C4 at the test market with 6 decimals: totals 5000000 and 1500000, free 2000000 and 0,
  wallet amounts 123456789 and 1000000.
\<close>

theorem useBalances_with_open_orders_witness:
  "map (\<lambda>row. (coin row, orders row, unsettled row, wallet row))
     (useBalances (test_state test_market (Some [test_open_orders]))) =
   [(''Mint 1'', Some (Fin 3), Some (Fin 2), Some (Fin (123456789 / 1000000))),
    (''Mint 2'', Some (Fin (3 / 2)), Some (Fin 0), Some (Fin 1))]"
proof -
  have sel: "useSelectedOpenOrdersAccount
               (openOrdersAccounts (test_state test_market (Some [test_open_orders])))
             = Some test_open_orders"
    by (simp add: useSelectedOpenOrdersAccount_def test_state_def)
  have dec: "baseDecimals test_market = 6" "quoteDecimals test_market = 6"
    by (simp_all add: test_market_def)
  from useBalances_with_open_orders
         [of "test_state test_market (Some [test_open_orders])" test_market "''Mint 1''" "''Mint 2''"
            test_open_orders 5000000 2000000 1500000 0]
       sel
  show ?thesis
    by (simp add: test_context test_open_orders_def test_wallets dec)
qed

text \<open>
  C4 as stated fails for a market whose base mint is not listed: the market and an
  open-orders account are there, the base currency is \<open>UNKNOWN\<close>, and \<open>useBalances\<close>
  reports no row.
\<close>

theorem useBalances_unknown_currency_counterexample:
  "ctx_market (marketContext (test_state unlisted_market (Some [test_open_orders])))
     = Some unlisted_market
   \<and> useSelectedOpenOrdersAccount
       (openOrdersAccounts (test_state unlisted_market (Some [test_open_orders])))
     = Some test_open_orders
   \<and> useBalances (test_state unlisted_market (Some [test_open_orders])) = []"
  by (simp add: useBalances_def useSelectedOpenOrdersAccount_def test_state_def
      unlisted_market_def getMarketDetails_def getMarketInfos_def USE_MARKETS_def
      TOKEN_MINTS_def currencyName_def or_else_def truthy_string_def mint1_def mint2_def
      marketAddress_def Let_def)

text \<open>Without an open-orders account both amounts are \<open>null\<close>.\<close>

lemma inOrders_no_account:
  "inOrders market toNumber None tokenFree = None"
  "unsettledAmount market toNumber None tokenFree = None"
  by (simp_all add: inOrders_def unsettledAmount_def split: option.splits)

text \<open>
  C5 (as amended). Without a selected open-orders account, and with base and quote
  currency names that are known (not empty and not \<open>UNKNOWN\<close>), \<open>useBalances\<close> reports the
  base row and the quote row, both with \<open>orders\<close> and \<open>unsettled\<close> \<open>null\<close> and not 0. Whatever
  the names, no row it reports without such an account has \<open>orders\<close> or \<open>unsettled\<close> other
  than \<open>null\<close>.
\<close>

theorem useBalances_without_open_orders:
  assumes "useSelectedOpenOrdersAccount (openOrdersAccounts state) = None"
  shows "(\<forall>row \<in> set (useBalances state). orders row = None \<and> unsettled row = None)
         \<and> (baseCurrency (marketContext state) = Some base
            \<and> quoteCurrency (marketContext state) = Some quote
            \<and> base \<noteq> [] \<and> base \<noteq> ''UNKNOWN'' \<and> quote \<noteq> [] \<and> quote \<noteq> ''UNKNOWN'' \<longrightarrow>
            map (\<lambda>row. (coin row, orders row, unsettled row)) (useBalances state) =
              [(base, None, None), (quote, None, None)])"
  using assms
  by (simp add: useBalances_def Let_def inOrders_no_account truthy_string_def template_text_def)

text \<open>C5 at the test market, with an empty list of accounts and with no list.\<close>

theorem useBalances_without_open_orders_witness:
  "map (\<lambda>row. (coin row, orders row, unsettled row))
     (useBalances (test_state test_market (Some []))) =
   [(''Mint 1'', None, None), (''Mint 2'', None, None)]
   \<and> map (\<lambda>row. (coin row, orders row, unsettled row))
     (useBalances (test_state test_market None)) =
   [(''Mint 1'', None, None), (''Mint 2'', None, None)]"
proof -
  have sel: "useSelectedOpenOrdersAccount (openOrdersAccounts (test_state test_market (Some [])))
             = None"
       "useSelectedOpenOrdersAccount (openOrdersAccounts (test_state test_market None)) = None"
    by (simp_all add: useSelectedOpenOrdersAccount_def test_state_def)
  from useBalances_without_open_orders [OF sel(1), of "''Mint 1''" "''Mint 2''"]
       useBalances_without_open_orders [OF sel(2), of "''Mint 1''" "''Mint 2''"]
  show ?thesis
    by (simp add: test_context)
qed

text \<open>
  C5 as stated fails for a market whose base mint is not listed: there is no open-orders
  account, the base currency is \<open>UNKNOWN\<close>, and \<open>useBalances\<close> reports no row, so neither
  currency is reported with \<open>null\<close> amounts.
\<close>

theorem useBalances_no_account_unknown_currency_counterexample:
  "ctx_market (marketContext (test_state unlisted_market None)) = Some unlisted_market
   \<and> baseCurrency (marketContext (test_state unlisted_market None)) = Some ''UNKNOWN''
   \<and> useSelectedOpenOrdersAccount (openOrdersAccounts (test_state unlisted_market None)) = None
   \<and> useBalances (test_state unlisted_market None) = []"
  by (simp add: useBalances_def useSelectedOpenOrdersAccount_def test_state_def
      unlisted_market_def getMarketDetails_def getMarketInfos_def USE_MARKETS_def
      TOKEN_MINTS_def currencyName_def or_else_def truthy_string_def mint1_def mint2_def
      marketAddress_def Let_def)

end
